theory Spec2Isabelle
  imports Main "HOL-Library.Sublist" "HOL-Library.Word"
begin

section \<open>Data model of \<^verbatim>\<open>ai_generator.py\<close>\<close>

text \<open>
  A Python \<^verbatim>\<open>str\<close> is modelled as a \<^typ>\<open>string\<close>: one list element per character
  of the Python string, so \<^term>\<open>length\<close> is Python's \<^verbatim>\<open>len\<close>. The functions below never
  inspect the characters of the topic; an f-string \<^verbatim>\<open>f"a{topic}b"\<close> with a \<^verbatim>\<open>str\<close> topic
  is the concatenation \<open>''a'' @ topic @ ''b''\<close>.

  Every idea dictionary built by the fallback generator has the same six string-valued
  keys, so it is a record with those six fields.
\<close>

record ContentIdea =
  title :: string
  description :: string
  content_type :: string
  virality :: string
  target_audience :: string
  category :: string

text \<open>
  The exceptions the modelled statements can raise. All of them are subclasses of
  Python's \<^verbatim>\<open>Exception\<close>, which is what the handler at line 87 catches;
  \<open>ServiceError\<close> stands for whatever the client library raises when the outbound
  call fails.
\<close>

datatype py_error =
    KeyError
  | IndexError
  | TypeError
  | JSONDecodeError
  | ServiceError string

section \<open>Dictionary and list access as Python performs it\<close>

text \<open>
  A dictionary literal is kept as the list of its items in insertion order, which is
  the order in which \<^verbatim>\<open>for cat in templates\<close> visits the keys.
\<close>

definition dict_getitem :: "('k \<times> 'v) list \<Rightarrow> 'k \<Rightarrow> py_error + 'v" where
  \<comment> \<open>\<^verbatim>\<open>d[k]\<close>: raises KeyError when the key is absent.\<close>
  "dict_getitem d k = (case map_of d k of None \<Rightarrow> Inl KeyError | Some v \<Rightarrow> Inr v)"

definition dict_get :: "('k \<times> 'v) list \<Rightarrow> 'k \<Rightarrow> 'v \<Rightarrow> 'v" where
  \<comment> \<open>\<^verbatim>\<open>d.get(k, default)\<close>.\<close>
  "dict_get d k dflt = (case map_of d k of None \<Rightarrow> dflt | Some v \<Rightarrow> v)"

definition list_getitem0 :: "'a list \<Rightarrow> py_error + 'a" where
  \<comment> \<open>\<^verbatim>\<open>xs[0]\<close>: raises IndexError on the empty list.\<close>
  "list_getitem0 xs = (case xs of [] \<Rightarrow> Inl IndexError | x # _ \<Rightarrow> Inr x)"

section \<open>The fallback template bank\<close>

text \<open>The six entries of the \<^verbatim>\<open>templates\<close> literal (lines 96 to 169), in source order.\<close>

definition humor_templates :: "string \<Rightarrow> ContentIdea list" where
  \<open>humor_templates topic =
    [\<lparr>title = ''When '' @ topic @ '' Goes Hilariously Wrong'',
      description = ''A compilation of funny '' @ topic @ '' fails that everyone can relate to.'',
      content_type = ''video'', virality = ''high'',
      target_audience = ''General audience with interest in comedy'',
      category = ''humor''\<rparr>,
     \<lparr>title = topic @ '' Expectations vs. Reality'',
      description = ''Contrasting what people expect from '' @ topic
                    @ '' with the often-amusing reality.'',
      content_type = ''reel'', virality = ''high'',
      target_audience = ''Young adults and teens'',
      category = ''humor''\<rparr>]\<close>

definition tech_templates :: "string \<Rightarrow> ContentIdea list" where
  \<open>tech_templates topic =
    [\<lparr>title = ''5 '' @ topic @ '' Hacks You Never Knew Existed'',
      description = ''Quick technical tips to master '' @ topic
                    @ '' that most people don't know about.'',
      content_type = ''tutorial'', virality = ''medium'',
      target_audience = ''Tech enthusiasts and early adopters'',
      category = ''tech''\<rparr>,
     \<lparr>title = ''The Future of '' @ topic @ '': 2025 Predictions'',
      description = ''Analysis of upcoming trends and technologies related to '' @ topic @ ''.'',
      content_type = ''post'', virality = ''medium'',
      target_audience = ''Industry professionals and tech followers'',
      category = ''tech''\<rparr>]\<close>

definition finance_templates :: "string \<Rightarrow> ContentIdea list" where
  \<open>finance_templates topic =
    [\<lparr>title = ''How '' @ topic @ '' Can Save You $1000 This Month'',
      description = ''Practical financial strategies using '' @ topic
                    @ '' for immediate savings.'',
      content_type = ''video'', virality = ''medium'',
      target_audience = ''Budget-conscious adults'',
      category = ''finance''\<rparr>,
     \<lparr>title = ''Investing in '' @ topic @ '': Beginner's Guide'',
      description = ''Step-by-step approach to understanding investment opportunities in ''
                    @ topic @ ''.'',
      content_type = ''series'', virality = ''low'',
      target_audience = ''New investors'',
      category = ''finance''\<rparr>]\<close>

definition fitness_templates :: "string \<Rightarrow> ContentIdea list" where
  \<open>fitness_templates topic =
    [\<lparr>title = ''10-Minute '' @ topic @ '' Workout for Busy People'',
      description = ''Quick and effective workout routine incorporating '' @ topic
                    @ '' principles.'',
      content_type = ''reel'', virality = ''high'',
      target_audience = ''Busy professionals interested in fitness'',
      category = ''fitness''\<rparr>,
     \<lparr>title = topic @ '' Transformation Challenge'',
      description = ''30-day fitness journey using '' @ topic
                    @ '' methods with visible results.'',
      content_type = ''series'', virality = ''medium'',
      target_audience = ''Fitness enthusiasts looking for challenges'',
      category = ''fitness''\<rparr>]\<close>

definition education_templates :: "string \<Rightarrow> ContentIdea list" where
  \<open>education_templates topic =
    [\<lparr>title = topic @ '' Explained in 60 Seconds'',
      description = ''Quick, easy-to-understand explanation of '' @ topic @ '' for beginners.'',
      content_type = ''reel'', virality = ''medium'',
      target_audience = ''Students and lifelong learners'',
      category = ''education''\<rparr>,
     \<lparr>title = ''What Schools Don't Teach About '' @ topic,
      description = ''Lesser-known but important facts about '' @ topic
                    @ '' that aren't in textbooks.'',
      content_type = ''video'', virality = ''medium'',
      target_audience = ''Curious minds and alternative education followers'',
      category = ''education''\<rparr>]\<close>

definition lifestyle_templates :: "string \<Rightarrow> ContentIdea list" where
  \<open>lifestyle_templates topic =
    [\<lparr>title = ''Day in the Life: '' @ topic @ '' Edition'',
      description = ''Follow-along vlog showing how '' @ topic
                    @ '' integrates into daily routines.'',
      content_type = ''vlog'', virality = ''medium'',
      target_audience = ''Lifestyle content followers'',
      category = ''lifestyle''\<rparr>,
     \<lparr>title = topic @ '' Room Makeover'',
      description = ''Transforming a space with '' @ topic
                    @ ''-inspired aesthetics and functionality.'',
      content_type = ''video'', virality = ''medium'',
      target_audience = ''Home decor and design enthusiasts'',
      category = ''lifestyle''\<rparr>]\<close>

definition templates :: "string \<Rightarrow> (string \<times> ContentIdea list) list" where
  "templates topic =
    [(''humor'', humor_templates topic),
     (''tech'', tech_templates topic),
     (''finance'', finance_templates topic),
     (''fitness'', fitness_templates topic),
     (''education'', education_templates topic),
     (''lifestyle'', lifestyle_templates topic)]"

text \<open>
  The loop of lines 176 to 180: \<open>cats\<close> are the keys still to visit, \<open>mixed_ideas\<close> the
  list built so far. The subscripts \<^verbatim>\<open>templates[cat]\<close> and \<^verbatim>\<open>[0]\<close> can raise; the
  \<^verbatim>\<open>break\<close> leaves the loop as soon as five ideas are collected.
\<close>

fun mix_loop ::
  "(string \<times> ContentIdea list) list \<Rightarrow> string list \<Rightarrow> ContentIdea list
    \<Rightarrow> py_error + ContentIdea list" where
  "mix_loop tpl [] mixed_ideas = Inr mixed_ideas"
| "mix_loop tpl (cat # cats) mixed_ideas =
     (case dict_getitem tpl cat of
        Inl e \<Rightarrow> Inl e
      | Inr entry \<Rightarrow>
          (case list_getitem0 entry of
             Inl e \<Rightarrow> Inl e
           | Inr idea \<Rightarrow>
               (let mixed_ideas' = mixed_ideas @ [idea]
                in if length mixed_ideas' \<ge> 5 then Inr mixed_ideas'
                   else mix_loop tpl cats mixed_ideas')))"

definition generate_mock_content_ideas :: "string \<Rightarrow> string \<Rightarrow> py_error + ContentIdea list" where
  \<comment> \<open>Lines 91 to 181. The default argument \<^verbatim>\<open>templates['humor']\<close> of \<^verbatim>\<open>get\<close> is evaluated
      before the lookup, as Python evaluates arguments before the call.\<close>
  "generate_mock_content_ideas topic cat =
     (let tpl = templates topic in
      if cat \<noteq> ''all'' then
        (case dict_getitem tpl ''humor'' of
           Inl e \<Rightarrow> Inl e
         | Inr dflt \<Rightarrow> Inr (dict_get tpl cat dflt))
      else mix_loop tpl (map fst tpl) [])"

section \<open>Values decoded from the external payload\<close>

text \<open>
  What \<^verbatim>\<open>json.loads\<close> can return: \<^verbatim>\<open>None\<close>, a \<^verbatim>\<open>bool\<close>, an \<^verbatim>\<open>int\<close>, a \<^verbatim>\<open>float\<close>
  (kept as its 64 bits; no arithmetic is done on it), a \<^verbatim>\<open>str\<close>, a \<^verbatim>\<open>list\<close> or
  a \<^verbatim>\<open>dict\<close> with string keys (the list of its items, keys distinct).
\<close>

datatype pyval =
    PNone
  | PBool bool
  | PInt int
  | PFloat "64 word"
  | PStr string
  | PList "pyval list"
  | PDict "(string \<times> pyval) list"

definition idea_value :: "ContentIdea \<Rightarrow> pyval" where
  \<comment> \<open>An idea of the template bank as the Python dictionary it is.\<close>
  "idea_value i =
     PDict [(''title'', PStr (title i)),
            (''description'', PStr (description i)),
            (''content_type'', PStr (content_type i)),
            (''virality'', PStr (virality i)),
            (''target_audience'', PStr (target_audience i)),
            (''category'', PStr (category i))]"

definition mock_value :: "string \<Rightarrow> string \<Rightarrow> py_error + pyval" where
  \<comment> \<open>The call \<^verbatim>\<open>generate_mock_content_ideas(topic, category)\<close> seen from
      \<^verbatim>\<open>generate_content_ideas\<close>, whose other results are decoded payloads.\<close>
  "mock_value topic cat =
     (case generate_mock_content_ideas topic cat of
        Inl e \<Rightarrow> Inl e
      | Inr ideas \<Rightarrow> Inr (PList (map idea_value ideas)))"

section \<open>The request builder and caller\<close>

definition CATEGORIES :: "(string \<times> string) list" where
  "CATEGORIES =
    [(''all'', ''All categories''),
     (''humor'', ''Humorous and entertaining content''),
     (''tech'', ''Technology-related content''),
     (''finance'', ''Financial advice and education''),
     (''fitness'', ''Health and fitness content''),
     (''education'', ''Educational and informative content''),
     (''lifestyle'', ''Lifestyle and daily vlog content'')]"

definition newline :: string where
  "newline = [CHR 0x0A]"

definition indent :: string where
  \<comment> \<open>The twelve spaces that start every continuation line of the two prompt literals.\<close>
  "indent = ''            ''"

definition prompt_lines :: "string list \<Rightarrow> string" where
  \<comment> \<open>The lines of a triple-quoted literal: the first as it is, each later one after a
      line break and the indentation.\<close>
  "prompt_lines ls =
     (case ls of [] \<Rightarrow> [] | l # rest \<Rightarrow> l @ concat (map (\<lambda>x. newline @ indent @ x) rest))"

definition prompt_category :: "string \<Rightarrow> string \<Rightarrow> string \<Rightarrow> string" where
  \<comment> \<open>Lines 38 to 47.\<close>
  \<open>prompt_category topic category_desc cat = prompt_lines
    [''Generate 5 creative social media content ideas for "'' @ topic
       @ ''" specifically for '' @ category_desc @ ''.'',
     ''For each idea, include:'',
     ''1. A catchy title (max 60 chars)'',
     ''2. Brief description (1-2 sentences)'',
     ''3. Content type (e.g., video, reel, story, post)'',
     ''4. Estimated virality potential (low, medium, high)'',
     ''5. Target audience'',
     [],
     ''Return as a JSON array with fields: title, description, content_type, virality, target_audience, category.'',
     ''Set category to: '' @ cat]\<close>

definition prompt_all :: "string \<Rightarrow> string" where
  \<comment> \<open>Lines 49 to 59.\<close>
  \<open>prompt_all topic = prompt_lines
    [''Generate 5 creative social media content ideas across different categories for "''
       @ topic @ ''".'',
     ''Include a mix of humor, tech, finance, fitness, and lifestyle ideas.'',
     ''For each idea, include:'',
     ''1. A catchy title (max 60 chars)'',
     ''2. Brief description (1-2 sentences)'',
     ''3. Content type (e.g., video, reel, story, post)'',
     ''4. Estimated virality potential (low, medium, high)'',
     ''5. Target audience'',
     ''6. Category (one of: humor, tech, finance, fitness, education, lifestyle)'',
     [],
     ''Return as a JSON array with fields: title, description, content_type, virality, target_audience, category.'']\<close>

definition build_prompt :: "string \<Rightarrow> string \<Rightarrow> string" where
  \<comment> \<open>Lines 36 to 59.\<close>
  "build_prompt topic cat =
     (if cat \<noteq> ''all'' then
        (let category_desc = dict_get CATEGORIES cat ''various topics''
         in prompt_category topic category_desc cat)
      else prompt_all topic)"

text \<open>
  The object returned by \<^verbatim>\<open>chat.completions.create\<close>: only
  \<^verbatim>\<open>choices[i].message.content\<close> is read, and a message's content may be \<^verbatim>\<open>None\<close>.
\<close>

record chat_completion =
  choices :: "string option list"

text \<open>
  What the function reads from outside itself: the two module globals set at import
  time (lines 10 to 15) and the library function \<^verbatim>\<open>json.loads\<close>. The client is
  \<^verbatim>\<open>None\<close> when its construction failed; otherwise the one method called on it is
  \<^verbatim>\<open>chat.completions.create\<close>, whose arguments other than the user prompt are
  constants, so it is a function of the prompt that returns a completion or raises.
\<close>

record env =
  OPENAI_API_KEY :: "string option"
  openai :: "(string \<Rightarrow> py_error + chat_completion) option"
  json_loads :: "string \<Rightarrow> py_error + pyval"

definition falsy :: "string option \<Rightarrow> bool" where
  \<comment> \<open>\<^verbatim>\<open>not x\<close> for \<open>x\<close> a \<^verbatim>\<open>str\<close> or \<^verbatim>\<open>None\<close>.\<close>
  "falsy x = (case x of None \<Rightarrow> True | Some s \<Rightarrow> s = [])"

definition parse_response :: "env \<Rightarrow> chat_completion \<Rightarrow> py_error + pyval" where
  \<comment> \<open>Lines 75 and 76: \<^verbatim>\<open>choices[0]\<close> raises IndexError on an empty list, and
      \<^verbatim>\<open>json.loads(None)\<close> raises TypeError.\<close>
  "parse_response ev response =
     (case list_getitem0 (choices response) of
        Inl e \<Rightarrow> Inl e
      | Inr content \<Rightarrow>
          (case content of
             None \<Rightarrow> Inl TypeError
           | Some s \<Rightarrow> json_loads ev s))"

definition select_ideas :: "string \<Rightarrow> string \<Rightarrow> pyval \<Rightarrow> py_error + pyval" where
  \<comment> \<open>Lines 79 to 85.\<close>
  "select_ideas topic cat ideas =
     (case ideas of
        PDict d \<Rightarrow>
          (case map_of d ''ideas'' of
             Some v \<Rightarrow> Inr v
           | None \<Rightarrow> mock_value topic cat)
      | PList xs \<Rightarrow> Inr (PList xs)
      | _ \<Rightarrow> mock_value topic cat)"

definition try_body :: "env \<Rightarrow> string \<Rightarrow> string \<Rightarrow> py_error + pyval" where
  \<comment> \<open>Lines 31 to 85, the body of the \<^verbatim>\<open>try\<close>: \<open>Inl\<close> is an exception raised in it.\<close>
  "try_body ev topic cat =
     (if falsy (OPENAI_API_KEY ev) then mock_value topic cat
      else
        (case openai ev of
           None \<Rightarrow> mock_value topic cat
         | Some create \<Rightarrow>
             (let prompt = build_prompt topic cat in
              case create prompt of
                Inl e \<Rightarrow> Inl e
              | Inr response \<Rightarrow>
                  (case parse_response ev response of
                     Inl e \<Rightarrow> Inl e
                   | Inr ideas \<Rightarrow> select_ideas topic cat ideas))))"

definition generate_content_ideas :: "env \<Rightarrow> string \<Rightarrow> string \<Rightarrow> py_error + pyval" where
  \<comment> \<open>Lines 28 to 89. The handler catches every \<^verbatim>\<open>Exception\<close> of the body and calls
      the fallback generator outside the \<^verbatim>\<open>try\<close>, so an exception of that call would
      reach the caller. The logging calls do not change the result.\<close>
  "generate_content_ideas ev topic cat =
     (case try_body ev topic cat of
        Inl e \<Rightarrow> mock_value topic cat
      | Inr v \<Rightarrow> Inr v)"

section \<open>The fallback generator and the state around it\<close>

text \<open>
  To say that the fallback generator depends on nothing but its arguments, the state it
  could depend on is made explicit: the module globals and the library of \<open>env\<close>,
  together with the records written to the module's logger. The first statement of the
  function (line 93) writes one record at level INFO; the rest of the body builds the
  template bank from the topic and selects from it.
\<close>

datatype log_level = INFO | WARNING | ERROR

record world = env +
  logged :: "(log_level \<times> string) list"

definition logger_info :: "string \<Rightarrow> 'a world_scheme \<Rightarrow> 'a world_scheme" where
  \<comment> \<open>\<^verbatim>\<open>logger.info(msg)\<close>: one more record in the log; the standard handlers do not
      raise into the caller.\<close>
  "logger_info msg w = w\<lparr>logged := logged w @ [(INFO, msg)]\<rparr>"

definition generate_mock_content_ideas_in ::
  "world \<Rightarrow> string \<Rightarrow> string \<Rightarrow> (py_error + ContentIdea list) \<times> world" where
  \<comment> \<open>Lines 91 to 181, statement by statement, from the state \<open>w\<close> to the result and
      the state after the call.\<close>
  "generate_mock_content_ideas_in w topic cat =
     (let w' = logger_info
                 (''Generating mock content ideas for '' @ topic @ '' in category '' @ cat) w;
          tpl = templates topic
      in if cat \<noteq> ''all'' then
           (case dict_getitem tpl ''humor'' of
              Inl e \<Rightarrow> (Inl e, w')
            | Inr dflt \<Rightarrow> (Inr (dict_get tpl cat dflt), w'))
         else (mix_loop tpl (map fst tpl) [], w'))"

section \<open>The accepted payload shapes, as the specification words them\<close>

text \<open>
  The specification speaks of "a direct sequence of idea objects" and of "a wrapper object
  containing a named sequence field". An idea object carries the six fields of the data
  model, each a string. These predicates follow that wording; they are not part of the
  program and serve only to compare it with \<open>select_ideas\<close>.
\<close>

definition spec_idea_object :: "pyval \<Rightarrow> bool" where
  "spec_idea_object v =
     (case v of
        PDict d \<Rightarrow>
          list_all (\<lambda>k. case map_of d k of Some (PStr s) \<Rightarrow> True | _ \<Rightarrow> False)
            [''title'', ''description'', ''content_type'', ''virality'',
             ''target_audience'', ''category'']
      | _ \<Rightarrow> False)"

definition spec_idea_array :: "pyval \<Rightarrow> bool" where
  "spec_idea_array v = (case v of PList xs \<Rightarrow> list_all spec_idea_object xs | _ \<Rightarrow> False)"

definition spec_accepted_shape :: "pyval \<Rightarrow> bool" where
  "spec_accepted_shape v =
     (spec_idea_array v \<or>
      (case v of
         PDict d \<Rightarrow> (case map_of d ''ideas'' of Some x \<Rightarrow> spec_idea_array x | None \<Rightarrow> False)
       | _ \<Rightarrow> False))"

section \<open>Example environments\<close>

text \<open>
  Three concrete environments on which the theorems below are evaluated: no credential
  and no client; a client whose call raises; and a client that answers every prompt with
  one choice holding the text \<open>payload\<close>, which \<^verbatim>\<open>json.loads\<close> decodes to \<open>decoded\<close>.
\<close>

definition unconfigured_env :: env where
  "unconfigured_env =
     \<lparr>OPENAI_API_KEY = None, openai = None, json_loads = (\<lambda>s. Inl JSONDecodeError)\<rparr>"

definition failing_env :: env where
  "failing_env =
     \<lparr>OPENAI_API_KEY = Some ''sk-test'',
      openai = Some (\<lambda>prompt. Inl (ServiceError ''connection refused'')),
      json_loads = (\<lambda>s. Inl JSONDecodeError)\<rparr>"

definition answering_env :: "string \<Rightarrow> py_error + pyval \<Rightarrow> env" where
  "answering_env payload decoded =
     \<lparr>OPENAI_API_KEY = Some ''sk-test'',
      openai = Some (\<lambda>prompt. Inr \<lparr>choices = [Some payload]\<rparr>),
      json_loads = (\<lambda>s. if s = payload then decoded else Inl JSONDecodeError)\<rparr>"

section \<open>Evaluating the fallback generator\<close>

lemmas template_defs =
  humor_templates_def tech_templates_def finance_templates_def
  fitness_templates_def education_templates_def lifestyle_templates_def

lemma mock_all:
  "generate_mock_content_ideas topic ''all'' =
     Inr [hd (humor_templates topic), hd (tech_templates topic), hd (finance_templates topic),
          hd (fitness_templates topic), hd (education_templates topic)]"
  by (simp add: generate_mock_content_ideas_def templates_def dict_getitem_def
      list_getitem0_def template_defs)

lemma mock_specific:
  "cat \<noteq> ''all'' \<Longrightarrow>
   generate_mock_content_ideas topic cat =
     Inr (dict_get (templates topic) cat (humor_templates topic))"
  by (simp add: generate_mock_content_ideas_def templates_def dict_getitem_def)

lemma dict_get_templates_cases:
  "dict_get (templates topic) cat (humor_templates topic) \<in>
     {humor_templates topic, tech_templates topic, finance_templates topic,
      fitness_templates topic, education_templates topic, lifestyle_templates topic}"
  by (simp add: dict_get_def templates_def)

lemma dict_get_templates_unknown:
  "cat \<notin> {''humor'', ''tech'', ''finance'', ''fitness'', ''education'', ''lifestyle''} \<Longrightarrow>
   dict_get (templates topic) cat (humor_templates topic) = humor_templates topic"
  by (simp add: dict_get_def templates_def)

lemma mock_returns: "\<exists>ideas. generate_mock_content_ideas topic cat = Inr ideas"
  by (cases "cat = ''all''") (simp_all add: mock_all mock_specific)

lemma mock_ideas_from_bank:
  assumes "generate_mock_content_ideas topic cat = Inr ideas" and "i \<in> set ideas"
  shows "i \<in> set (humor_templates topic) \<or> i \<in> set (tech_templates topic)
       \<or> i \<in> set (finance_templates topic) \<or> i \<in> set (fitness_templates topic)
       \<or> i \<in> set (education_templates topic) \<or> i \<in> set (lifestyle_templates topic)"
proof (cases "cat = ''all''")
  case True
  with assms(1) have "ideas = [hd (humor_templates topic), hd (tech_templates topic),
      hd (finance_templates topic), hd (fitness_templates topic), hd (education_templates topic)]"
    by (simp add: mock_all)
  with assms(2) show ?thesis
    by (auto simp: template_defs)
next
  case False
  with assms(1) have "ideas = dict_get (templates topic) cat (humor_templates topic)"
    by (simp add: mock_specific)
  with assms(2) dict_get_templates_cases [of topic cat] show ?thesis
    by auto
qed

lemma topic_in_templates:
  "\<forall>i \<in> set (humor_templates topic). sublist topic (title i) \<and> sublist topic (description i)"
  "\<forall>i \<in> set (tech_templates topic). sublist topic (title i) \<and> sublist topic (description i)"
  "\<forall>i \<in> set (finance_templates topic). sublist topic (title i) \<and> sublist topic (description i)"
  "\<forall>i \<in> set (fitness_templates topic). sublist topic (title i) \<and> sublist topic (description i)"
  "\<forall>i \<in> set (education_templates topic). sublist topic (title i) \<and> sublist topic (description i)"
  "\<forall>i \<in> set (lifestyle_templates topic). sublist topic (title i) \<and> sublist topic (description i)"
  unfolding template_defs
  by (simp_all del: append.simps add: sublist_appendI sublist_append_leftI sublist_append_rightI)

lemma title_len:
  "\<forall>i \<in> set (humor_templates topic). length (title i) \<le> length topic + 34"
  "\<forall>i \<in> set (tech_templates topic). length (title i) \<le> length topic + 34"
  "\<forall>i \<in> set (finance_templates topic). length (title i) \<le> length topic + 34"
  "\<forall>i \<in> set (fitness_templates topic). length (title i) \<le> length topic + 34"
  "\<forall>i \<in> set (education_templates topic). length (title i) \<le> length topic + 34"
  "\<forall>i \<in> set (lifestyle_templates topic). length (title i) \<le> length topic + 34"
  unfolding template_defs
  by simp_all

lemma labels_in_templates:
  "\<forall>i \<in> set (humor_templates topic). virality i \<in> {''low'', ''medium'', ''high''} \<and> content_type i \<in> {''video'', ''reel'', ''story'', ''post'', ''tutorial'', ''series'', ''vlog''}"
  "\<forall>i \<in> set (tech_templates topic). virality i \<in> {''low'', ''medium'', ''high''} \<and> content_type i \<in> {''video'', ''reel'', ''story'', ''post'', ''tutorial'', ''series'', ''vlog''}"
  "\<forall>i \<in> set (finance_templates topic). virality i \<in> {''low'', ''medium'', ''high''} \<and> content_type i \<in> {''video'', ''reel'', ''story'', ''post'', ''tutorial'', ''series'', ''vlog''}"
  "\<forall>i \<in> set (fitness_templates topic). virality i \<in> {''low'', ''medium'', ''high''} \<and> content_type i \<in> {''video'', ''reel'', ''story'', ''post'', ''tutorial'', ''series'', ''vlog''}"
  "\<forall>i \<in> set (education_templates topic). virality i \<in> {''low'', ''medium'', ''high''} \<and> content_type i \<in> {''video'', ''reel'', ''story'', ''post'', ''tutorial'', ''series'', ''vlog''}"
  "\<forall>i \<in> set (lifestyle_templates topic). virality i \<in> {''low'', ''medium'', ''high''} \<and> content_type i \<in> {''video'', ''reel'', ''story'', ''post'', ''tutorial'', ''series'', ''vlog''}"
  unfolding template_defs
  by simp_all

lemma mock_in_world:
  "generate_mock_content_ideas_in w topic cat =
     (generate_mock_content_ideas topic cat,
      logger_info (''Generating mock content ideas for '' @ topic @ '' in category '' @ cat) w)"
  by (simp add: generate_mock_content_ideas_in_def generate_mock_content_ideas_def Let_def
      split: sum.splits)

lemma mock_length:
  "generate_mock_content_ideas topic cat = Inr ideas \<Longrightarrow>
   length ideas = (if cat = ''all'' then 5 else 2)"
proof (cases "cat = ''all''")
  case True
  then show "generate_mock_content_ideas topic cat = Inr ideas \<Longrightarrow> ?thesis"
    by (auto simp: mock_all)
next
  case False
  assume "generate_mock_content_ideas topic cat = Inr ideas"
  with False have "ideas = dict_get (templates topic) cat (humor_templates topic)"
    by (simp add: mock_specific)
  with dict_get_templates_cases [of topic cat] False show ?thesis
    by (auto simp: template_defs)
qed

section \<open>Properties of the fallback generator\<close>

text \<open>
  C2. For every topic and every specific category among humor, tech, finance, fitness,
  education and lifestyle, the fallback generator returns exactly two ideas, and the
  category field of each of them is the requested category.
\<close>

theorem mock_specific_category:
  assumes "cat \<in> {''humor'', ''tech'', ''finance'', ''fitness'', ''education'', ''lifestyle''}"
  shows "\<exists>ideas. generate_mock_content_ideas topic cat = Inr ideas
           \<and> length ideas = 2 \<and> (\<forall>i \<in> set ideas. category i = cat)"
proof -
  from assms have "cat \<noteq> ''all''" by auto
  then have "generate_mock_content_ideas topic cat
              = Inr (dict_get (templates topic) cat (humor_templates topic))"
    by (rule mock_specific)
  moreover from assms
  have "length (dict_get (templates topic) cat (humor_templates topic)) = 2
      \<and> (\<forall>i \<in> set (dict_get (templates topic) cat (humor_templates topic)). category i = cat)"
    by (auto simp: dict_get_def templates_def template_defs)
  ultimately show ?thesis by simp
qed

text \<open>The theorem at topic "drones" and category "fitness".\<close>

theorem mock_specific_category_witness:
  "''fitness'' \<in> {''humor'', ''tech'', ''finance'', ''fitness'', ''education'', ''lifestyle''}
   \<and> generate_mock_content_ideas ''drones'' ''fitness'' = Inr (fitness_templates ''drones'')
   \<and> length (fitness_templates ''drones'') = 2
   \<and> category (fitness_templates ''drones'' ! 0) = ''fitness''
   \<and> category (fitness_templates ''drones'' ! 1) = ''fitness''"
proof -
  have h: "''fitness'' \<in> {''humor'', ''tech'', ''finance'', ''fitness'', ''education'', ''lifestyle''}"
    by simp
  from mock_specific_category [OF h, of "''drones''"]
  obtain ideas where r: "generate_mock_content_ideas ''drones'' ''fitness'' = Inr ideas"
    and n: "length ideas = 2" and c: "\<forall>i \<in> set ideas. category i = ''fitness''"
    by blast
  have e: "generate_mock_content_ideas ''drones'' ''fitness'' = Inr (fitness_templates ''drones'')"
    by (simp add: mock_specific dict_get_def templates_def)
  with r have i: "ideas = fitness_templates ''drones''" by simp
  from n c have "category (ideas ! 0) = ''fitness''" "category (ideas ! 1) = ''fitness''"
    by simp_all
  with h e n i show ?thesis by simp
qed

text \<open>
  C3. For every topic, the fallback generator with category "all" returns exactly five
  ideas whose category fields are pairwise distinct: the first idea of each of the first
  five entries of the template bank, in the order of the entries.
\<close>

theorem mock_all_five:
  "\<exists>ideas. generate_mock_content_ideas topic ''all'' = Inr ideas
     \<and> length ideas = 5
     \<and> distinct (map category ideas)
     \<and> map Inr ideas = map (\<lambda>(cat, entry). list_getitem0 entry) (take 5 (templates topic))"
  by (simp add: mock_all templates_def list_getitem0_def template_defs)

text \<open>
  C4. For every topic and every category, each idea returned by the fallback generator
  contains the topic as a contiguous substring of its title and of its description.
\<close>

theorem mock_contains_topic:
  "\<exists>ideas. generate_mock_content_ideas topic cat = Inr ideas
     \<and> (\<forall>i \<in> set ideas. sublist topic (title i) \<and> sublist topic (description i))"
proof -
  obtain ideas where r: "generate_mock_content_ideas topic cat = Inr ideas"
    using mock_returns by blast
  have "sublist topic (title i) \<and> sublist topic (description i)" if "i \<in> set ideas" for i
    using mock_ideas_from_bank [OF r that] topic_in_templates [of topic] by blast
  with r show ?thesis by blast
qed

text \<open>The theorem at topic "drones" and category "lifestyle", read at the second idea.\<close>

theorem mock_contains_topic_witness:
  "generate_mock_content_ideas ''drones'' ''lifestyle'' = Inr (lifestyle_templates ''drones'')
   \<and> lifestyle_templates ''drones'' \<noteq> []
   \<and> sublist ''drones'' (title (lifestyle_templates ''drones'' ! 1))
   \<and> sublist ''drones'' (description (lifestyle_templates ''drones'' ! 1))"
proof -
  from mock_contains_topic [of "''drones''" "''lifestyle''"]
  obtain ideas where r: "generate_mock_content_ideas ''drones'' ''lifestyle'' = Inr ideas"
    and c: "\<forall>i \<in> set ideas. sublist ''drones'' (title i) \<and> sublist ''drones'' (description i)"
    by blast
  have e: "generate_mock_content_ideas ''drones'' ''lifestyle'' = Inr (lifestyle_templates ''drones'')"
    by (simp add: mock_specific dict_get_def templates_def)
  with r have i: "ideas = lifestyle_templates ''drones''" by simp
  have n: "length (lifestyle_templates ''drones'') = 2"
    by (simp add: lifestyle_templates_def)
  then have "lifestyle_templates ''drones'' ! 1 \<in> set (lifestyle_templates ''drones'')"
    by simp
  with c i have "sublist ''drones'' (title (lifestyle_templates ''drones'' ! 1))
     \<and> sublist ''drones'' (description (lifestyle_templates ''drones'' ! 1))"
    by blast
  moreover from n have "lifestyle_templates ''drones'' \<noteq> []" by auto
  ultimately show ?thesis using e by simp
qed

text \<open>
  C5. With topic "drones" and category "tech" the fallback generator returns exactly two
  ideas, and the title of the first is "5 drones Hacks You Never Knew Existed".
\<close>

theorem mock_drones_tech:
  "\<exists>ideas. generate_mock_content_ideas ''drones'' ''tech'' = Inr ideas
     \<and> length ideas = 2
     \<and> title (ideas ! 0) = ''5 drones Hacks You Never Knew Existed''"
  by (simp add: generate_mock_content_ideas_def templates_def dict_getitem_def dict_get_def
      tech_templates_def)

text \<open>
  C7, as the code has it. For every topic and category, every idea returned by the
  fallback generator has a virality among low, medium, high and a content type among
  video, reel, story, post, tutorial, series, vlog. Its title is the topic set into at
  most 34 fixed characters, so it has at most \<open>length topic + 34\<close> characters, and
  at most 60 whenever the topic has at most 26.
\<close>

theorem mock_idea_fields:
  "\<exists>ideas. generate_mock_content_ideas topic cat = Inr ideas
     \<and> (\<forall>i \<in> set ideas.
           length (title i) \<le> length topic + 34
         \<and> (length topic \<le> 26 \<longrightarrow> length (title i) \<le> 60)
         \<and> virality i \<in> {''low'', ''medium'', ''high''}
         \<and> content_type i \<in> {''video'', ''reel'', ''story'', ''post'', ''tutorial'', ''series'', ''vlog''})"
proof -
  obtain ideas where r: "generate_mock_content_ideas topic cat = Inr ideas"
    using mock_returns by blast
  have "length (title i) \<le> length topic + 34
      \<and> (length topic \<le> 26 \<longrightarrow> length (title i) \<le> 60)
      \<and> virality i \<in> {''low'', ''medium'', ''high''}
      \<and> content_type i \<in> {''video'', ''reel'', ''story'', ''post'', ''tutorial'', ''series'', ''vlog''}"
    if "i \<in> set ideas" for i
  proof -
    have l: "length (title i) \<le> length topic + 34"
      using mock_ideas_from_bank [OF r that] title_len [of topic] by blast
    have "virality i \<in> {''low'', ''medium'', ''high''}
      \<and> content_type i \<in> {''video'', ''reel'', ''story'', ''post'', ''tutorial'', ''series'', ''vlog''}"
      using mock_ideas_from_bank [OF r that] labels_in_templates [of topic] by blast
    with l show ?thesis by simp
  qed
  with r show ?thesis by blast
qed

text \<open>The theorem at topic "drones" and category "finance", read at the first idea.\<close>

theorem mock_idea_fields_witness:
  "length ''drones'' \<le> 26
   \<and> generate_mock_content_ideas ''drones'' ''finance'' = Inr (finance_templates ''drones'')
   \<and> finance_templates ''drones'' \<noteq> []
   \<and> length (title (finance_templates ''drones'' ! 0)) \<le> 60
   \<and> virality (finance_templates ''drones'' ! 0) \<in> {''low'', ''medium'', ''high''}
   \<and> content_type (finance_templates ''drones'' ! 0)
       \<in> {''video'', ''reel'', ''story'', ''post'', ''tutorial'', ''series'', ''vlog''}"
proof -
  from mock_idea_fields [of "''drones''" "''finance''"]
  obtain ideas where r: "generate_mock_content_ideas ''drones'' ''finance'' = Inr ideas"
    and c: "\<forall>i \<in> set ideas.
           length (title i) \<le> length ''drones'' + 34
         \<and> (length ''drones'' \<le> 26 \<longrightarrow> length (title i) \<le> 60)
         \<and> virality i \<in> {''low'', ''medium'', ''high''}
         \<and> content_type i \<in> {''video'', ''reel'', ''story'', ''post'', ''tutorial'', ''series'', ''vlog''}"
    by blast
  have e: "generate_mock_content_ideas ''drones'' ''finance'' = Inr (finance_templates ''drones'')"
    by (simp add: mock_specific dict_get_def templates_def)
  with r have i: "ideas = finance_templates ''drones''" by simp
  have n: "length (finance_templates ''drones'') = 2"
    by (simp add: finance_templates_def)
  then have m: "finance_templates ''drones'' ! 0 \<in> set (finance_templates ''drones'')"
    by simp
  have h: "length ''drones'' \<le> 26" by simp
  from c i m h have "length (title (finance_templates ''drones'' ! 0)) \<le> 60
     \<and> virality (finance_templates ''drones'' ! 0) \<in> {''low'', ''medium'', ''high''}
     \<and> content_type (finance_templates ''drones'' ! 0)
         \<in> {''video'', ''reel'', ''story'', ''post'', ''tutorial'', ''series'', ''vlog''}"
    by blast
  moreover from n have "finance_templates ''drones'' \<noteq> []" by auto
  ultimately show ?thesis using e h by blast
qed

text \<open>
  The bound of 60 characters does not hold for every topic: the templates are filled in
  without truncation, and a topic of 32 characters gives a tech title of 63.
\<close>

theorem mock_title_length_counterexample:
  "generate_mock_content_ideas ''sustainable urban gardening tips'' ''tech''
     = Inr (tech_templates ''sustainable urban gardening tips'')
   \<and> title (tech_templates ''sustainable urban gardening tips'' ! 0)
       = ''5 sustainable urban gardening tips Hacks You Never Knew Existed''
   \<and> length (title (tech_templates ''sustainable urban gardening tips'' ! 0)) = 63
   \<and> \<not> length (title (tech_templates ''sustainable urban gardening tips'' ! 0)) \<le> 60"
  by (simp add: mock_specific dict_get_def templates_def tech_templates_def)

text \<open>
  C8. The fallback generator is a total, deterministic function of the topic and the
  category. Run in any state, it returns a list of ideas and never an exception (two
  ideas for a specific category, five for "all"). The list is given by the two arguments
  alone: it is the same in every state, whatever the credential, the client, the decoder
  and the log are, and a second call with the same arguments, made in the state the first
  call left, returns the same list. The only thing the call changes is the log, which
  gains the one record of line 93.
\<close>

theorem mock_total_deterministic:
  "(\<exists>f. \<forall>w topic cat.
        fst (generate_mock_content_ideas_in w topic cat) = Inr (f topic cat)
      \<and> length (f topic cat) = (if cat = ''all'' then 5 else 2))
   \<and> (\<forall>w w' topic cat.
        fst (generate_mock_content_ideas_in w topic cat)
          = fst (generate_mock_content_ideas_in w' topic cat))
   \<and> (\<forall>w topic cat.
        fst (generate_mock_content_ideas_in (snd (generate_mock_content_ideas_in w topic cat)) topic cat)
          = fst (generate_mock_content_ideas_in w topic cat))
   \<and> (\<forall>w topic cat.
        snd (generate_mock_content_ideas_in w topic cat)
          = w\<lparr>logged := logged w
               @ [(INFO, ''Generating mock content ideas for '' @ topic @ '' in category '' @ cat)]\<rparr>)"
proof (intro conjI)
  define f where "f topic cat = projr (generate_mock_content_ideas topic cat)" for topic cat
  have r: "generate_mock_content_ideas topic cat = Inr (f topic cat)" for topic cat
    using mock_returns [of topic cat] by (auto simp: f_def)
  have "fst (generate_mock_content_ideas_in w topic cat) = Inr (f topic cat)
      \<and> length (f topic cat) = (if cat = ''all'' then 5 else 2)" for w topic cat
    using r [of topic cat] mock_length [OF r [of topic cat]] by (simp add: mock_in_world)
  then show "\<exists>f. \<forall>w topic cat.
        fst (generate_mock_content_ideas_in w topic cat) = Inr (f topic cat)
      \<and> length (f topic cat) = (if cat = ''all'' then 5 else 2)"
    by blast
  show "\<forall>w w' topic cat.
        fst (generate_mock_content_ideas_in w topic cat)
          = fst (generate_mock_content_ideas_in w' topic cat)"
    by (simp add: mock_in_world)
  show "\<forall>w topic cat.
        fst (generate_mock_content_ideas_in (snd (generate_mock_content_ideas_in w topic cat)) topic cat)
          = fst (generate_mock_content_ideas_in w topic cat)"
    by (simp add: mock_in_world)
  show "\<forall>w topic cat.
        snd (generate_mock_content_ideas_in w topic cat)
          = w\<lparr>logged := logged w
               @ [(INFO, ''Generating mock content ideas for '' @ topic @ '' in category '' @ cat)]\<rparr>"
    by (simp add: mock_in_world logger_info_def)
qed

text \<open>
  C9. For every topic and every category string that is neither "all" nor one of the six
  template keys, the fallback generator does not fail and returns the two humor ideas,
  whose category fields are "humor" and so differ from the requested category.
\<close>

theorem mock_unknown_category:
  assumes "cat \<notin> {''all'', ''humor'', ''tech'', ''finance'', ''fitness'', ''education'', ''lifestyle''}"
  shows "generate_mock_content_ideas topic cat = Inr (humor_templates topic)
       \<and> length (humor_templates topic) = 2
       \<and> (\<forall>i \<in> set (humor_templates topic). category i = ''humor'' \<and> category i \<noteq> cat)"
proof (intro conjI)
  from assms have "cat \<noteq> ''all''" by simp
  then have "generate_mock_content_ideas topic cat
              = Inr (dict_get (templates topic) cat (humor_templates topic))"
    by (rule mock_specific)
  moreover from assms
  have "dict_get (templates topic) cat (humor_templates topic) = humor_templates topic"
    by (intro dict_get_templates_unknown) simp
  ultimately show "generate_mock_content_ideas topic cat = Inr (humor_templates topic)"
    by simp
next
  show "length (humor_templates topic) = 2"
    by (simp add: humor_templates_def)
next
  from assms have "cat \<noteq> ''humor''" by simp
  then show "\<forall>i \<in> set (humor_templates topic). category i = ''humor'' \<and> category i \<noteq> cat"
    by (auto simp: humor_templates_def)
qed

text \<open>The theorem at topic "drones" and the unknown category "cooking".\<close>

theorem mock_unknown_category_witness:
  "''cooking'' \<notin> {''all'', ''humor'', ''tech'', ''finance'', ''fitness'', ''education'', ''lifestyle''}
   \<and> generate_mock_content_ideas ''drones'' ''cooking'' = Inr (humor_templates ''drones'')
   \<and> length (humor_templates ''drones'') = 2
   \<and> category (humor_templates ''drones'' ! 0) = ''humor''
   \<and> category (humor_templates ''drones'' ! 1) = ''humor''"
proof -
  have h: "''cooking'' \<notin> {''all'', ''humor'', ''tech'', ''finance'', ''fitness'', ''education'', ''lifestyle''}"
    by simp
  note t = mock_unknown_category [OF h, of "''drones''"]
  then have "category (humor_templates ''drones'' ! 0) = ''humor''"
    "category (humor_templates ''drones'' ! 1) = ''humor''"
    by simp_all
  with h t show ?thesis by simp
qed

text \<open>
  C10. For every topic, the category fields of the ideas returned for "all" are, in this
  order, humor, tech, finance, fitness, education; no idea of category lifestyle is among
  them.
\<close>

theorem mock_all_order:
  "\<exists>ideas. generate_mock_content_ideas topic ''all'' = Inr ideas
     \<and> map category ideas = [''humor'', ''tech'', ''finance'', ''fitness'', ''education'']
     \<and> ''lifestyle'' \<notin> set (map category ideas)"
  by (simp add: mock_all template_defs)

section \<open>Properties of the caller\<close>

lemma mock_value_returns:
  "\<exists>ideas. generate_mock_content_ideas topic cat = Inr ideas
     \<and> mock_value topic cat = Inr (PList (map idea_value ideas))"
  using mock_returns [of topic cat] by (auto simp: mock_value_def)

lemma gci_answering:
  "generate_content_ideas (answering_env payload decoded) topic cat =
     (case decoded of Inl e \<Rightarrow> mock_value topic cat | Inr v \<Rightarrow>
        (case select_ideas topic cat v of Inl e \<Rightarrow> mock_value topic cat | Inr r \<Rightarrow> Inr r))"
  by (simp add: generate_content_ideas_def try_body_def answering_env_def falsy_def
      parse_response_def list_getitem0_def split: sum.splits)

lemma mock_value_drones_tech:
  "mock_value ''drones'' ''tech'' = Inr (PList (map idea_value (tech_templates ''drones'')))"
  by (simp add: mock_value_def mock_specific dict_get_def templates_def)

lemma parse_answering:
  "parse_response (answering_env payload decoded) \<lparr>choices = [Some payload]\<rparr> = decoded"
  by (simp add: parse_response_def answering_env_def list_getitem0_def)

text \<open>
  C1. For every environment, topic and category, \<open>generate_content_ideas\<close> returns a
  value and raises nothing. When the credential is missing or empty, when the client is
  absent, when the outbound call raises, and when the response cannot be parsed (no
  choice, no content, or text that does not decode), the value returned is the result of
  the fallback generator for the same topic and category, which is a list of ideas.
\<close>

theorem generate_content_ideas_never_raises:
  "(\<exists>v. generate_content_ideas ev topic cat = Inr v)
   \<and> (falsy (OPENAI_API_KEY ev) \<or> openai ev = None
        \<longrightarrow> generate_content_ideas ev topic cat = mock_value topic cat)
   \<and> (\<forall>create e. openai ev = Some create \<and> create (build_prompt topic cat) = Inl e
        \<longrightarrow> generate_content_ideas ev topic cat = mock_value topic cat)
   \<and> (\<forall>create response e. openai ev = Some create
          \<and> create (build_prompt topic cat) = Inr response
          \<and> parse_response ev response = Inl e
        \<longrightarrow> generate_content_ideas ev topic cat = mock_value topic cat)
   \<and> (\<exists>ideas. generate_mock_content_ideas topic cat = Inr ideas
          \<and> mock_value topic cat = Inr (PList (map idea_value ideas)))"
proof (intro conjI)
  obtain fb where fb: "mock_value topic cat = Inr fb"
    using mock_value_returns [of topic cat] by blast
  show "\<exists>v. generate_content_ideas ev topic cat = Inr v"
    by (cases "try_body ev topic cat") (simp_all add: generate_content_ideas_def fb)
  show "falsy (OPENAI_API_KEY ev) \<or> openai ev = None
        \<longrightarrow> generate_content_ideas ev topic cat = mock_value topic cat"
    by (auto simp: generate_content_ideas_def try_body_def fb)
  show "\<forall>create e. openai ev = Some create \<and> create (build_prompt topic cat) = Inl e
        \<longrightarrow> generate_content_ideas ev topic cat = mock_value topic cat"
    by (auto simp: generate_content_ideas_def try_body_def fb)
  show "\<forall>create response e. openai ev = Some create
          \<and> create (build_prompt topic cat) = Inr response
          \<and> parse_response ev response = Inl e
        \<longrightarrow> generate_content_ideas ev topic cat = mock_value topic cat"
    by (auto simp: generate_content_ideas_def try_body_def fb)
  show "\<exists>ideas. generate_mock_content_ideas topic cat = Inr ideas
          \<and> mock_value topic cat = Inr (PList (map idea_value ideas))"
    by (rule mock_value_returns)
qed

text \<open>
  The theorem on the three example environments: no credential, a failing call, and an
  answer that does not decode.
\<close>

theorem generate_content_ideas_never_raises_witness:
  "falsy (OPENAI_API_KEY unconfigured_env)
   \<and> generate_content_ideas unconfigured_env ''drones'' ''tech''
       = Inr (PList (map idea_value (tech_templates ''drones'')))
   \<and> generate_content_ideas failing_env ''drones'' ''tech''
       = Inr (PList (map idea_value (tech_templates ''drones'')))
   \<and> generate_content_ideas (answering_env ''not json'' (Inl JSONDecodeError)) ''drones'' ''tech''
       = Inr (PList (map idea_value (tech_templates ''drones'')))"
proof -
  have k: "falsy (OPENAI_API_KEY unconfigured_env)"
    by (simp add: unconfigured_env_def falsy_def)
  with generate_content_ideas_never_raises [of unconfigured_env "''drones''" "''tech''"]
  have a: "generate_content_ideas unconfigured_env ''drones'' ''tech'' = mock_value ''drones'' ''tech''"
    by blast
  have "\<forall>create e. openai failing_env = Some create
          \<and> create (build_prompt ''drones'' ''tech'') = Inl e
        \<longrightarrow> generate_content_ideas failing_env ''drones'' ''tech'' = mock_value ''drones'' ''tech''"
    using generate_content_ideas_never_raises [of failing_env "''drones''" "''tech''"] by blast
  from this [rule_format, of "\<lambda>prompt. Inl (ServiceError ''connection refused'')"
      "ServiceError ''connection refused''"]
  have b: "generate_content_ideas failing_env ''drones'' ''tech'' = mock_value ''drones'' ''tech''"
    by (simp add: failing_env_def)
  let ?ev = "answering_env ''not json'' (Inl JSONDecodeError)"
  have "\<forall>create response e. openai ?ev = Some create
          \<and> create (build_prompt ''drones'' ''tech'') = Inr response
          \<and> parse_response ?ev response = Inl e
        \<longrightarrow> generate_content_ideas ?ev ''drones'' ''tech'' = mock_value ''drones'' ''tech''"
    using generate_content_ideas_never_raises [of ?ev "''drones''" "''tech''"] by blast
  from this [rule_format, of "\<lambda>prompt. Inr \<lparr>choices = [Some ''not json'']\<rparr>"
      "\<lparr>choices = [Some ''not json'']\<rparr>" JSONDecodeError]
  have c: "generate_content_ideas ?ev ''drones'' ''tech'' = mock_value ''drones'' ''tech''"
    by (simp add: answering_env_def parse_response_def list_getitem0_def)
  from k a b c show ?thesis
    by (simp only: mock_value_drones_tech simp_thms)
qed

text \<open>
  C6, as the code has it. Once the call has returned, only the top-level type of the
  decoded payload is inspected: a dictionary that has the key "ideas" yields the value
  of that key, whatever it is; a list is returned as it is, whatever its elements; every
  other decoded payload (a dictionary without that key, a string, a number, a boolean,
  null) and every response that fails to parse yield the fallback ideas for the same
  topic and category.
\<close>

theorem response_shapes:
  assumes "\<not> falsy (OPENAI_API_KEY ev)"
    and "openai ev = Some create"
    and "create (build_prompt topic cat) = Inr response"
  shows "(\<forall>e. parse_response ev response = Inl e
            \<longrightarrow> generate_content_ideas ev topic cat = mock_value topic cat)
       \<and> (\<forall>d v. parse_response ev response = Inr (PDict d) \<and> map_of d ''ideas'' = Some v
            \<longrightarrow> generate_content_ideas ev topic cat = Inr v)
       \<and> (\<forall>xs. parse_response ev response = Inr (PList xs)
            \<longrightarrow> generate_content_ideas ev topic cat = Inr (PList xs))
       \<and> (\<forall>p. parse_response ev response = Inr p
              \<and> (\<forall>xs. p \<noteq> PList xs) \<and> (\<forall>d. p = PDict d \<longrightarrow> map_of d ''ideas'' = None)
            \<longrightarrow> generate_content_ideas ev topic cat = mock_value topic cat)"
proof -
  obtain fb where fb: "mock_value topic cat = Inr fb"
    using mock_value_returns [of topic cat] by blast
  have body: "try_body ev topic cat =
      (case parse_response ev response of Inl e \<Rightarrow> Inl e | Inr p \<Rightarrow> select_ideas topic cat p)"
    using assms by (simp add: try_body_def)
  have 1: "generate_content_ideas ev topic cat = mock_value topic cat"
    if "parse_response ev response = Inl e" for e
    using that by (simp add: generate_content_ideas_def body)
  have 2: "generate_content_ideas ev topic cat = Inr v"
    if "parse_response ev response = Inr (PDict d)" "map_of d ''ideas'' = Some v" for d v
    using that by (simp add: generate_content_ideas_def body select_ideas_def)
  have 3: "generate_content_ideas ev topic cat = Inr (PList xs)"
    if "parse_response ev response = Inr (PList xs)" for xs
    using that by (simp add: generate_content_ideas_def body select_ideas_def)
  have 4: "generate_content_ideas ev topic cat = mock_value topic cat"
    if "parse_response ev response = Inr p" "\<forall>xs. p \<noteq> PList xs"
      "\<forall>d. p = PDict d \<longrightarrow> map_of d ''ideas'' = None" for p
    using that by (cases p) (simp_all add: generate_content_ideas_def body select_ideas_def fb)
  from 1 2 3 4 show ?thesis by blast
qed

text \<open>
  The theorem on five answers: a wrapper whose "ideas" field is a number, a list of
  numbers, a wrapper under another key, null, and text that does not decode.
\<close>

theorem response_shapes_witness:
  \<open>\<not> falsy (OPENAI_API_KEY (answering_env ''{"ideas": 42}'' (Inr (PDict [(''ideas'', PInt 42)]))))
   \<and> generate_content_ideas
        (answering_env ''{"ideas": 42}'' (Inr (PDict [(''ideas'', PInt 42)]))) ''drones'' ''tech''
       = Inr (PInt 42)
   \<and> generate_content_ideas
        (answering_env ''[1]'' (Inr (PList [PInt 1]))) ''drones'' ''tech''
       = Inr (PList [PInt 1])
   \<and> generate_content_ideas
        (answering_env ''{"items": []}'' (Inr (PDict [(''items'', PList [])]))) ''drones'' ''tech''
       = Inr (PList (map idea_value (tech_templates ''drones'')))
   \<and> generate_content_ideas (answering_env ''null'' (Inr PNone)) ''drones'' ''tech''
       = Inr (PList (map idea_value (tech_templates ''drones'')))
   \<and> generate_content_ideas (answering_env ''not json'' (Inl JSONDecodeError)) ''drones'' ''tech''
       = Inr (PList (map idea_value (tech_templates ''drones'')))\<close>
proof -
  have k: "\<not> falsy (OPENAI_API_KEY (answering_env payload decoded))" for payload decoded
    by (simp add: answering_env_def falsy_def)
  have c: "openai (answering_env payload decoded)
             = Some (\<lambda>prompt. Inr \<lparr>choices = [Some payload]\<rparr>)" for payload decoded
    by (simp add: answering_env_def)
  have 1: \<open>generate_content_ideas
        (answering_env ''{"ideas": 42}'' (Inr (PDict [(''ideas'', PInt 42)]))) ''drones'' ''tech''
       = Inr (PInt 42)\<close>
    using response_shapes [OF k [of \<open>''{"ideas": 42}''\<close> "Inr (PDict [(''ideas'', PInt 42)])"] c [of \<open>''{"ideas": 42}''\<close> "Inr (PDict [(''ideas'', PInt 42)])"] refl,
        where topic = "''drones''" and cat = "''tech''", unfolded parse_answering]
    by simp
  have 2: "generate_content_ideas
        (answering_env ''[1]'' (Inr (PList [PInt 1]))) ''drones'' ''tech''
       = Inr (PList [PInt 1])"
    using response_shapes [OF k [of "''[1]''" "Inr (PList [PInt 1])"] c [of "''[1]''" "Inr (PList [PInt 1])"] refl,
        where topic = "''drones''" and cat = "''tech''", unfolded parse_answering]
    by simp
  have 3: \<open>generate_content_ideas
        (answering_env ''{"items": []}'' (Inr (PDict [(''items'', PList [])]))) ''drones'' ''tech''
       = mock_value ''drones'' ''tech''\<close>
    using response_shapes [OF k [of \<open>''{"items": []}''\<close> "Inr (PDict [(''items'', PList [])])"] c [of \<open>''{"items": []}''\<close> "Inr (PDict [(''items'', PList [])])"] refl,
        where topic = "''drones''" and cat = "''tech''", unfolded parse_answering]
    by simp
  have 4: "generate_content_ideas (answering_env ''null'' (Inr PNone)) ''drones'' ''tech''
       = mock_value ''drones'' ''tech''"
    using response_shapes [OF k [of "''null''" "Inr PNone"] c [of "''null''" "Inr PNone"] refl,
        where topic = "''drones''" and cat = "''tech''", unfolded parse_answering]
    by simp
  have 5: "generate_content_ideas (answering_env ''not json'' (Inl JSONDecodeError)) ''drones'' ''tech''
       = mock_value ''drones'' ''tech''"
    using response_shapes [OF k [of "''not json''" "Inl JSONDecodeError"] c [of "''not json''" "Inl JSONDecodeError"] refl,
        where topic = "''drones''" and cat = "''tech''", unfolded parse_answering]
    by simp
  from k 1 2 3 4 5 show ?thesis
    by (simp only: mock_value_drones_tech simp_thms)
qed

text \<open>
  A payload outside the two shapes of the specification is not always answered with the
  fallback: the wrapper \<^verbatim>\<open>{"ideas": 42}\<close> holds no sequence of ideas, yet its field is
  returned.
\<close>

theorem response_shape_counterexample:
  \<open>\<not> spec_accepted_shape (PDict [(''ideas'', PInt 42)])
   \<and> generate_content_ideas
        (answering_env ''{"ideas": 42}'' (Inr (PDict [(''ideas'', PInt 42)]))) ''drones'' ''tech''
       = Inr (PInt 42)
   \<and> mock_value ''drones'' ''tech'' \<noteq> Inr (PInt 42)\<close>
  by (simp add: spec_accepted_shape_def spec_idea_array_def gci_answering select_ideas_def
      mock_value_drones_tech)

end
